theory Spec2Isabelle
  imports Complex_Main
begin

section \<open>Numbers and arrays\<close>

text \<open>
  The program computes with numpy \<open>float64\<close> arrays. The model is exact: a finite float
  is a real number, with no rounding and no overflow. A float division whose divisor is
  zero does not raise in numpy: it yields \<open>inf\<close>, \<open>-inf\<close> or \<open>nan\<close> (with a warning).
  These three values are collapsed into the single value \<open>NonFinite\<close>, which absorbs
  addition and multiplication (as \<open>nan\<close> does, and as \<open>inf\<close> does up to the collapse).
\<close>

datatype np_float = Finite real | NonFinite

instantiation np_float :: "{comm_monoid_add, times}"
begin

definition zero_np_float :: np_float where
  "zero_np_float = Finite 0"

fun plus_np_float :: "np_float \<Rightarrow> np_float \<Rightarrow> np_float" where
  "plus_np_float (Finite x) (Finite y) = Finite (x + y)"
| "plus_np_float _ _ = NonFinite"

fun times_np_float :: "np_float \<Rightarrow> np_float \<Rightarrow> np_float" where
  "times_np_float (Finite x) (Finite y) = Finite (x * y)"
| "times_np_float _ _ = NonFinite"

instance
proof (standard, goal_cases)
  case (1 u v w)
  show ?case by (cases u; cases v; cases w; simp)
next
  case (2 u v)
  show ?case by (cases u; cases v; simp)
next
  case (3 u)
  show ?case by (cases u; simp add: zero_np_float_def)
qed

end

text \<open>Float division \<open>a / b\<close> of two finite operands.\<close>

definition np_div :: "real \<Rightarrow> real \<Rightarrow> np_float" where
  "np_div a b = (if b = 0 then NonFinite else Finite (a / b))"

text \<open>
  A two-dimensional array is the list of its rows, all of one length. An array with an
  axis of length zero is outside the model: a list of no rows cannot carry its number of
  columns. Shape errors of numpy are the error \<open>ValueError\<close>, an index out of bounds is
  \<open>IndexError\<close>.
\<close>

datatype error = ValueError | IndexError

type_synonym 'a mat = "'a list list"

definition nrows :: "'a mat \<Rightarrow> nat" where
  "nrows A = length A"

definition ncols :: "'a mat \<Rightarrow> nat" where
  "ncols A = (case A of [] \<Rightarrow> 0 | r # _ \<Rightarrow> length r)"

definition is_mat :: "nat \<Rightarrow> nat \<Rightarrow> 'a mat \<Rightarrow> bool" where
  "is_mat m n A = (length A = m \<and> list_all (\<lambda>r. length r = n) A)"

text \<open>\<open>A.T\<close>\<close>

definition mat_T :: "'a mat \<Rightarrow> 'a mat" where
  "mat_T A = map (\<lambda>j. map (\<lambda>r. r ! j) A) [0..<ncols A]"

definition dot :: "('a::{comm_monoid_add, times}) list \<Rightarrow> 'a list \<Rightarrow> 'a" where
  "dot xs ys = sum_list (map2 (*) xs ys)"

text \<open>\<open>A @ B\<close> (and \<open>A.dot(B)\<close>) of two-dimensional arrays.\<close>

definition matmul :: "('a::{comm_monoid_add, times}) mat \<Rightarrow> 'a mat \<Rightarrow> error + 'a mat" where
  "matmul A B =
     (if ncols A = nrows B then Inr (map (\<lambda>r. map (\<lambda>c. dot r c) (mat_T B)) A)
      else Inl ValueError)"

text \<open>\<open>A.dot(v)\<close> of a two-dimensional array and a vector.\<close>

definition mat_vec :: "('a::{comm_monoid_add, times}) mat \<Rightarrow> 'a list \<Rightarrow> error + 'a list" where
  "mat_vec A v =
     (if ncols A = length v then Inr (map (\<lambda>r. dot r v) A) else Inl ValueError)"

text \<open>\<open>numpy.diag(v)\<close> of a vector.\<close>

definition np_diag :: "('a::zero) list \<Rightarrow> 'a mat" where
  "np_diag v = map (\<lambda>i. map (\<lambda>j. if i = j then v ! i else 0) [0..<length v]) [0..<length v]"

text \<open>\<open>numpy.eye(n)\<close>\<close>

definition eye :: "nat \<Rightarrow> real mat" where
  "eye n = map (\<lambda>i. map (\<lambda>j. if i = j then 1 else 0) [0..<n]) [0..<n]"

text \<open>A real array read as an array of floats.\<close>

definition emb :: "real mat \<Rightarrow> np_float mat" where
  "emb A = map (map Finite) A"

section \<open>linalg.py\<close>

text \<open>
  \<open>numpy.linalg.svd(J, full_matrices=False)\<close> is a library function: it is a parameter
  of the model, a function from the matrix to the triple \<open>(U, S, Vt)\<close>. Calls whose
  order a claim speaks of are recorded in a trace.
\<close>

type_synonym svd_fn = "real mat \<Rightarrow> real mat \<times> real list \<times> real mat"

datatype event =
    NpLinalgSvd "real mat"
  | TfRotationFromMatrix "real mat"
  | NpIsclose real real

definition pinv_svd_traced ::
  "svd_fn \<Rightarrow> real mat \<Rightarrow> string \<Rightarrow> real \<Rightarrow> real \<Rightarrow> real \<Rightarrow> event list \<times> (error + np_float mat)" where
  "pinv_svd_traced svd J variant eps lam lam_min =
     (case svd J of (U, S, Vt) \<Rightarrow>
        (let tr = [NpLinalgSvd J];
             ret = (\<lambda>Sinv.
               (case matmul (emb (mat_T Vt)) (np_diag Sinv) of
                  Inl e \<Rightarrow> Inl e
                | Inr VS \<Rightarrow> matmul VS (emb (mat_T U))))
         in if variant = ''plain'' then
              (tr, ret (map (\<lambda>s. if s > 0 then np_div 1 s else Finite 0) S))
            else if variant = ''clipped'' then
              (tr, ret (map (\<lambda>s. if s < eps then Finite 0 else np_div 1 s) S))
            else if variant = ''damped'' then
              (tr, ret (map (\<lambda>s. np_div s (s\<^sup>2 + lam\<^sup>2)) S))
            else if variant = ''smooth'' then
              (tr, ret (map (\<lambda>s. if s > eps then np_div 1 s
                                  else np_div s (s\<^sup>2 + lam_min\<^sup>2)) S))
            else (tr, Inl ValueError)))"

definition pinv_svd ::
  "svd_fn \<Rightarrow> real mat \<Rightarrow> string \<Rightarrow> real \<Rightarrow> real \<Rightarrow> real \<Rightarrow> error + np_float mat" where
  "pinv_svd svd J variant eps lam lam_min = snd (pinv_svd_traced svd J variant eps lam lam_min)"

text \<open>
  What \<open>numpy.linalg.svd(J, full_matrices=False)\<close> returns for an \<open>m\<times>n\<close> matrix, from the
  library's documentation: with \<open>k = min m n\<close>, a matrix \<open>U\<close> of shape \<open>m\<times>k\<close> with
  orthonormal columns, the \<open>k\<close> singular values, non-negative and in descending order,
  and a matrix \<open>Vt\<close> of shape \<open>k\<times>n\<close> with orthonormal rows, such that
  \<open>J = U \<cdot> diag S \<cdot> Vt\<close>.
\<close>

definition thin_svd_shape :: "real mat \<Rightarrow> real mat \<times> real list \<times> real mat \<Rightarrow> bool" where
  "thin_svd_shape J usv =
     (case usv of (U, S, Vt) \<Rightarrow>
        is_mat (nrows J) (min (nrows J) (ncols J)) U \<and>
        length S = min (nrows J) (ncols J) \<and>
        is_mat (min (nrows J) (ncols J)) (ncols J) Vt)"

definition is_thin_svd :: "real mat \<Rightarrow> real mat \<times> real list \<times> real mat \<Rightarrow> bool" where
  "is_thin_svd J usv =
     (case usv of (U, S, Vt) \<Rightarrow>
        thin_svd_shape J (U, S, Vt) \<and>
        sorted (rev S) \<and> list_all (\<lambda>s. 0 \<le> s) S \<and>
        matmul (mat_T U) U = Inr (eye (length S)) \<and>
        matmul Vt (mat_T Vt) = Inr (eye (length S)) \<and>
        (case matmul U (np_diag S) of Inl e \<Rightarrow> False | Inr US \<Rightarrow> matmul US Vt = Inr J))"

text \<open>
  The decomposition of a matrix that is zero off its diagonal, with a non-negative,
  descending diagonal: \<open>U\<close> and \<open>Vt\<close> are the leading columns and rows of identity
  matrices. It serves as the library function on the diagonal matrices of the examples.
\<close>

definition diag_svd :: svd_fn where
  "diag_svd J =
     (let m = nrows J; n = ncols J; k = min m n
      in (map (\<lambda>i. map (\<lambda>j. if i = j then 1 else 0) [0..<k]) [0..<m],
          map (\<lambda>i. J ! i ! i) [0..<k],
          map (\<lambda>i. map (\<lambda>j. if i = j then 1 else 0) [0..<n]) [0..<k]))"

subsection \<open>The inversion rules as the specification's table states them\<close>

datatype policy = Plain | Clipped | Damped | Smooth


fun sigma_inv_spec :: "policy \<Rightarrow> real \<Rightarrow> real \<Rightarrow> real \<Rightarrow> real \<Rightarrow> np_float" where
  "sigma_inv_spec Plain eps lam lam_min \<sigma> = (if \<sigma> > 0 then np_div 1 \<sigma> else Finite 0)"
| "sigma_inv_spec Clipped eps lam lam_min \<sigma> = (if \<sigma> < eps then Finite 0 else np_div 1 \<sigma>)"
| "sigma_inv_spec Damped eps lam lam_min \<sigma> = np_div \<sigma> (\<sigma>\<^sup>2 + lam\<^sup>2)"
| "sigma_inv_spec Smooth eps lam lam_min \<sigma> =
     (if \<sigma> > eps then np_div 1 \<sigma> else np_div \<sigma> (\<sigma>\<^sup>2 + lam_min\<^sup>2))"


text \<open>Every entry is a finite float of magnitude at most \<open>b\<close>.\<close>

fun abs_le :: "real \<Rightarrow> np_float \<Rightarrow> bool" where
  "abs_le b (Finite x) = (\<bar>x\<bar> \<le> b)"
| "abs_le b NonFinite = False"

definition entries_abs_le :: "real \<Rightarrow> np_float mat \<Rightarrow> bool" where
  "entries_abs_le b A = list_all (list_all (abs_le b)) A"

subsection \<open>The inversion rules in float64\<close>

text \<open>
  Where a property depends on it, the rounding of float64 is explicit: \<open>fl\<close> takes the
  exact result of an operation to the float that the operation returns. What is used of
  rounding to nearest: zero is a float, rounding is monotone, and a float rounds to
  itself. Overflow is not modelled.
\<close>

definition f64_rounding :: "(real \<Rightarrow> real) \<Rightarrow> bool" where
  "f64_rounding fl = (fl 0 = 0 \<and> (\<forall>x y. x \<le> y \<longrightarrow> fl x \<le> fl y) \<and> (\<forall>x. fl (fl x) = fl x))"


text \<open>Float division, rounded.\<close>

definition f64_div :: "(real \<Rightarrow> real) \<Rightarrow> real \<Rightarrow> real \<Rightarrow> np_float" where
  "f64_div fl a b = (if b = 0 then NonFinite else Finite (fl (a / b)))"

text \<open>
  Lines 11 to 27 of \<open>pinv_svd\<close> with every float operation rounded (\<open>s**2\<close> is the rounded
  square): the list \<open>Sinv\<close>, or the \<open>ValueError\<close>.
\<close>

definition sinv_f64 ::
  "(real \<Rightarrow> real) \<Rightarrow> string \<Rightarrow> real \<Rightarrow> real \<Rightarrow> real \<Rightarrow> real list \<Rightarrow> error + np_float list" where
  "sinv_f64 fl variant eps lam lam_min S =
     (if variant = ''plain'' then
        Inr (map (\<lambda>s. if s > 0 then f64_div fl 1 s else Finite 0) S)
      else if variant = ''clipped'' then
        Inr (map (\<lambda>s. if s < eps then Finite 0 else f64_div fl 1 s) S)
      else if variant = ''damped'' then
        Inr (map (\<lambda>s. f64_div fl s (fl (fl (s * s) + fl (lam * lam)))) S)
      else if variant = ''smooth'' then
        Inr (map (\<lambda>s. if s > eps then f64_div fl 1 s
                       else f64_div fl s (fl (fl (s * s) + fl (lam_min * lam_min)))) S)
      else Inl ValueError)"

text \<open>
  \<open>pinv_svd\<close> with the rounded inversion rules. The two matrix products are taken as
  above: what is used of them is that a non-finite value spreads.
\<close>

definition pinv_svd_f64 ::
  "(real \<Rightarrow> real) \<Rightarrow> svd_fn \<Rightarrow> real mat \<Rightarrow> string \<Rightarrow> real \<Rightarrow> real \<Rightarrow> real \<Rightarrow> error + np_float mat" where
  "pinv_svd_f64 fl svd J variant eps lam lam_min =
     (case svd J of (U, S, Vt) \<Rightarrow>
        (case sinv_f64 fl variant eps lam lam_min S of
           Inl e \<Rightarrow> Inl e
         | Inr Sinv \<Rightarrow>
             (case matmul (emb (mat_T Vt)) (np_diag Sinv) of
                Inl e \<Rightarrow> Inl e
              | Inr VS \<Rightarrow> matmul VS (emb (mat_T U)))))"

section \<open>controller.py\<close>

subsection \<open>Library functions\<close>

text \<open>
  \<open>numpy.linalg.pinv(a, rcond)\<close>, from the library's documentation: the generalized
  inverse \<open>V \<cdot> \<Sigma>\<^sup>+ \<cdot> U\<^sup>t\<close> from the same decomposition, where a singular value less than
  or equal to \<open>rcond\<close> times the largest one is set to zero and every other one is
  inverted.
\<close>

definition amax :: "real list \<Rightarrow> real" where
  "amax xs = fold max (tl xs) (hd xs)"

definition np_linalg_pinv :: "svd_fn \<Rightarrow> real mat \<Rightarrow> real \<Rightarrow> error + np_float mat" where
  "np_linalg_pinv svd a rcond =
     (case svd a of (u, s, vt) \<Rightarrow>
        (let cutoff = rcond * amax s;
             s_inv = map (\<lambda>x. if x > cutoff then np_div 1 x else Finite 0) s
         in case matmul (emb (mat_T vt)) (np_diag s_inv) of
              Inl e \<Rightarrow> Inl e
            | Inr VS \<Rightarrow> matmul VS (emb (mat_T u))))"

text \<open>\<open>numpy.isclose(a, b)\<close> with its default tolerances \<open>rtol = 1e-5\<close>, \<open>atol = 1e-8\<close>.\<close>

definition np_isclose :: "real \<Rightarrow> real \<Rightarrow> bool" where
  "np_isclose a b = (\<bar>a - b\<bar> \<le> 1 / 10 ^ 8 + 1 / 10 ^ 5 * \<bar>b\<bar>)"

text \<open>
  \<open>tf.transformations.rotation_from_matrix\<close> is a parameter: it returns the rotation
  angle, the axis and a point on the axis, or raises \<open>ValueError\<close>. Its contract, from
  the library's documentation of the axis-angle form of a rotation matrix: an axis of
  three components, and the angle in \<open>(-\<pi>, \<pi>]\<close> whose cosine is \<open>(trace R - 1) / 2\<close>.
\<close>

type_synonym rfm_fn = "real mat \<Rightarrow> error + (real \<times> real list \<times> real list)"

definition axis_angle_of :: "real mat \<Rightarrow> real \<times> real list \<times> real list \<Rightarrow> bool" where
  "axis_angle_of M r =
     (case r of (angle, axis, point) \<Rightarrow>
        length axis = 3 \<and> - pi < angle \<and> angle \<le> pi \<and>
        2 * cos angle = M ! 0 ! 0 + M ! 1 ! 1 + M ! 2 ! 2 - 1)"

text \<open>
  \<open>a - b\<close> of two vectors, and the in-place \<open>a += b\<close>: numpy broadcasts a vector of
  length one, and raises on any other difference of lengths. In place, only the right
  operand is broadcast.
\<close>

definition np_sub :: "real list \<Rightarrow> real list \<Rightarrow> error + real list" where
  "np_sub a b =
     (if length a = length b then Inr (map2 (-) a b)
      else if length b = 1 then Inr (map (\<lambda>x. x - hd b) a)
      else if length a = 1 then Inr (map (\<lambda>y. hd a - y) b)
      else Inl ValueError)"

definition np_iadd :: "real list \<Rightarrow> real list \<Rightarrow> error + real list" where
  "np_iadd a b =
     (if length b = length a then Inr (map2 (+) a b)
      else if length b = 1 then Inr (map (\<lambda>x. x + hd b) a)
      else Inl ValueError)"

text \<open>An array of one or two dimensions, and \<open>ravel\<close>, which flattens it row by row.\<close>

datatype ndarray = Vec "real list" | Mat "real mat"

fun ravel :: "ndarray \<Rightarrow> real list" where
  "ravel (Vec v) = v"
| "ravel (Mat A) = concat A"

text \<open>The slices \<open>T[0:3, 3]\<close> and \<open>T[0:3, 0:3]\<close>, and the assignment \<open>H[0:3, 0:3] = R\<close>.\<close>

definition slice_0_3_col_3 :: "real mat \<Rightarrow> error + real list" where
  "slice_0_3_col_3 T =
     (if 3 < ncols T then Inr (map (\<lambda>r. r ! 3) (take 3 T)) else Inl IndexError)"

definition slice_0_3_0_3 :: "real mat \<Rightarrow> real mat" where
  "slice_0_3_0_3 T = map (take 3) (take 3 T)"

definition set_0_3_0_3 :: "real mat \<Rightarrow> real mat \<Rightarrow> error + real mat" where
  "set_0_3_0_3 H R =
     (if (nrows R = 3 \<or> nrows R = 1) \<and> (ncols R = 3 \<or> ncols R = 1) then
        Inr (map (\<lambda>i. map (\<lambda>j.
               if i < 3 \<and> j < 3
               then R ! (if nrows R = 1 then 0 else i) ! (if ncols R = 1 then 0 else j)
               else H ! i ! j) [0..<ncols H]) [0..<nrows H])
      else Inl ValueError)"

subsection \<open>Orientation and position error\<close>

definition alt_orientation_error_traced ::
  "rfm_fn \<Rightarrow> real mat \<Rightarrow> real mat \<Rightarrow> event list \<times> (error + real list)" where
  "alt_orientation_error_traced rotation_from_matrix T_tgt T_cur =
     (let R_cur = slice_0_3_0_3 T_cur;
          R_tgt = slice_0_3_0_3 T_tgt
      in case matmul (mat_T R_cur) R_tgt of
           Inl e \<Rightarrow> ([], Inl e)
         | Inr R_err \<Rightarrow>
             (case set_0_3_0_3 (eye 4) R_err of
                Inl e \<Rightarrow> ([], Inl e)
              | Inr T_err \<Rightarrow>
                  (case rotation_from_matrix T_err of
                     Inl e \<Rightarrow> ([TfRotationFromMatrix T_err], Inl e)
                   | Inr (angle, axis, _) \<Rightarrow>
                       ([TfRotationFromMatrix T_err, NpIsclose angle 0],
                        if np_isclose angle 0 then Inr [0, 0, 0]
                        else Inr (map (\<lambda>x. angle * x) axis)))))"

definition alt_orientation_error :: "rfm_fn \<Rightarrow> real mat \<Rightarrow> real mat \<Rightarrow> error + real list" where
  "alt_orientation_error rotation_from_matrix T_tgt T_cur =
     snd (alt_orientation_error_traced rotation_from_matrix T_tgt T_cur)"

definition position_error :: "real mat \<Rightarrow> real mat \<Rightarrow> error + real list" where
  "position_error T_tgt T_cur =
     (case slice_0_3_col_3 T_tgt of
        Inl e \<Rightarrow> Inl e
      | Inr a \<Rightarrow> (case slice_0_3_col_3 T_cur of Inl e \<Rightarrow> Inl e | Inr b \<Rightarrow> np_sub a b))"

definition orientation_error :: "rfm_fn \<Rightarrow> real mat \<Rightarrow> real mat \<Rightarrow> error + real list" where
  "orientation_error rotation_from_matrix T_tgt T_cur =
     (let R_tgt = slice_0_3_0_3 T_tgt;
          R_cur = slice_0_3_0_3 T_cur
      in case matmul (mat_T R_cur) R_tgt of
           Inl e \<Rightarrow> Inl e
         | Inr R_err \<Rightarrow>
             (case set_0_3_0_3 (eye 4) R_err of
                Inl e \<Rightarrow> Inl e
              | Inr R_err_h \<Rightarrow>
                  (case rotation_from_matrix R_err_h of
                     Inl e \<Rightarrow> Inl e
                   | Inr (angle, axis, _) \<Rightarrow> Inr (map (\<lambda>x. angle * x) axis))))"

text \<open>
  A valid pose: a \<open>4\<times>4\<close> homogeneous matrix whose rotation part is orthonormal with
  determinant \<open>+1\<close>.
\<close>

definition det3 :: "real mat \<Rightarrow> real" where
  "det3 R =
     R ! 0 ! 0 * (R ! 1 ! 1 * R ! 2 ! 2 - R ! 1 ! 2 * R ! 2 ! 1)
     - R ! 0 ! 1 * (R ! 1 ! 0 * R ! 2 ! 2 - R ! 1 ! 2 * R ! 2 ! 0)
     + R ! 0 ! 2 * (R ! 1 ! 0 * R ! 2 ! 1 - R ! 1 ! 1 * R ! 2 ! 0)"

definition valid_pose :: "real mat \<Rightarrow> bool" where
  "valid_pose T =
     (is_mat 4 4 T \<and> T ! 3 = [0, 0, 0, 1] \<and>
      matmul (mat_T (slice_0_3_0_3 T)) (slice_0_3_0_3 T) = Inr (eye 3) \<and>
      det3 (slice_0_3_0_3 T) = 1)"

subsection \<open>The controller\<close>

text \<open>
  The state of a \<open>Controller\<close>: the joint message (names and positions), the target
  link, the cached pose and Jacobian, and the messages published so far. The forward
  kinematics \<open>robot.fk\<close> is a parameter.
\<close>

record controller =
  joint_msg_name :: "string list"
  joint_msg_position :: "real list"
  target_link :: string
  self_T :: "real mat"
  self_J :: "real mat"
  pub :: "(string list \<times> real list) list"

type_synonym fk_fn = "string \<Rightarrow> (string \<rightharpoonup> real) \<Rightarrow> real mat \<times> real mat"

definition actuate :: "fk_fn \<Rightarrow> controller \<Rightarrow> ndarray \<Rightarrow> error + controller" where
  "actuate fk self q_delta =
     (case np_iadd (joint_msg_position self) (ravel q_delta) of
        Inl e \<Rightarrow> Inl e
      | Inr position \<Rightarrow>
          (let self1 = self\<lparr>joint_msg_position := position\<rparr>;
               self2 = self1\<lparr>pub := pub self1 @ [(joint_msg_name self1, joint_msg_position self1)]\<rparr>;
               joints = Map.empty(joint_msg_name self2 [\<mapsto>] joint_msg_position self2)
           in case fk (target_link self2) joints of
                (T, J) \<Rightarrow> Inr (self2\<lparr>self_T := T, self_J := J\<rparr>)))"

definition solve :: "svd_fn \<Rightarrow> real mat \<Rightarrow> real list \<Rightarrow> error + np_float list" where
  "solve svd J error =
     (case np_linalg_pinv svd J (1 / 100) of
        Inl e \<Rightarrow> Inl e
      | Inr P \<Rightarrow> mat_vec P (map Finite error))"

text \<open>
  \<open>solve\<close> as the specification states it: the generalized inverse of \<open>J\<close> under the
  configured policy and its parameters, applied to the error vector.
\<close>

definition solve_spec ::
  "svd_fn \<Rightarrow> string \<Rightarrow> real \<Rightarrow> real \<Rightarrow> real \<Rightarrow> real mat \<Rightarrow> real list \<Rightarrow> error + np_float list" where
  "solve_spec svd variant eps lam lam_min J error =
     (case pinv_svd svd J variant eps lam lam_min of
        Inl e \<Rightarrow> Inl e
      | Inr P \<Rightarrow> mat_vec P (map Finite error))"

section \<open>Example inputs\<close>

text \<open>The singular matrix of rank one of the specification's scenario.\<close>

definition J_rank1 :: "real mat" where
  "J_rank1 = [[1, 0], [0, 0]]"

text \<open>A \<open>6\<times>2\<close> Jacobian with the singular values \<open>1\<close> and \<open>0.005\<close>, and an error vector.\<close>

definition J_cond :: "real mat" where
  "J_cond = [[1, 0], [0, 1 / 200], [0, 0], [0, 0], [0, 0], [0, 0]]"

definition error_y :: "real list" where
  "error_y = [0, 1, 0, 0, 0, 0]"

text \<open>A controller of two joints, and a forward kinematics that reads them.\<close>

definition ctl_example :: controller where
  "ctl_example = \<lparr>joint_msg_name = [''joint1'', ''joint2''], joint_msg_position = [1, 2],
     target_link = ''target'', self_T = eye 4, self_J = [[0, 0]], pub = []\<rparr>"

definition fk_example :: fk_fn where
  "fk_example link joints =
     (eye 4, [[case joints ''joint1'' of None \<Rightarrow> 0 | Some q \<Rightarrow> q,
               case joints ''joint2'' of None \<Rightarrow> 0 | Some q \<Rightarrow> q]])"

text \<open>
  Poses: a quarter turn about the z axis with a translation, and a turn about the z axis
  by \<open>1e-9\<close>. The axis-angle extraction on rotations about the z axis by a known angle.
\<close>

definition pose_rot_z90 :: "real mat" where
  "pose_rot_z90 = [[0, - 1, 0, 1], [1, 0, 0, 2], [0, 0, 1, 3], [0, 0, 0, 1]]"

definition pose_rot_z_small :: "real mat" where
  "pose_rot_z_small =
     [[cos (1 / 10 ^ 9), - sin (1 / 10 ^ 9), 0, 0],
      [sin (1 / 10 ^ 9), cos (1 / 10 ^ 9), 0, 0],
      [0, 0, 1, 0],
      [0, 0, 0, 1]]"

definition rfm_about_z :: "real \<Rightarrow> rfm_fn" where
  "rfm_about_z angle M = Inr (angle, [0, 0, 1], [0, 0, 0, 1])"

section \<open>Shapes\<close>

lemma upt_2: "[0..<2] = [0, Suc 0]"
  by (simp add: numeral_2_eq_2)

lemma ncols_is_mat: "is_mat m n A \<Longrightarrow> 0 < m \<Longrightarrow> ncols A = n"
  by (cases A) (auto simp: is_mat_def ncols_def)

lemma nrows_is_mat: "is_mat m n A \<Longrightarrow> nrows A = m"
  by (simp add: is_mat_def nrows_def)

lemma is_mat_T: "is_mat m n A \<Longrightarrow> 0 < m \<Longrightarrow> is_mat n m (mat_T A)"
  by (simp add: ncols_is_mat mat_T_def is_mat_def list_all_iff)



lemma matmul_shape:
  assumes "is_mat m k A" "is_mat k n B" "0 < m" "0 < k"
  shows "\<exists>C. matmul A B = Inr C \<and> is_mat m n C"
proof -
  have "ncols A = nrows B"
    using assms by (simp add: ncols_is_mat nrows_is_mat)
  moreover have "length (mat_T B) = n"
    using assms by (simp add: mat_T_def ncols_is_mat)
  ultimately show ?thesis
    using assms(1) by (simp add: matmul_def is_mat_def list_all_iff)
qed

section \<open>The generalized inverse\<close>





lemma diag_svd_J_rank1: "diag_svd J_rank1 = ([[1, 0], [0, 1]], [1, 0], [[1, 0], [0, 1]])"
  by (simp add: diag_svd_def J_rank1_def nrows_def ncols_def)

lemma thin_J_rank1: "thin_svd_shape J_rank1 ([[1, 0], [0, 1]], [1, 0], [[1, 0], [0, 1]])"
  by (simp add: thin_svd_shape_def J_rank1_def nrows_def ncols_def is_mat_def)




section \<open>The Damped rule and rounding\<close>


lemma f64_rounding_id: "f64_rounding (\<lambda>x. x)"
  by (simp add: f64_rounding_def)

lemma pinv_svd_f64_exact:
  "pinv_svd_f64 (\<lambda>x. x) svd J variant eps lam lam_min = pinv_svd svd J variant eps lam lam_min"
proof -
  have d: "f64_div (\<lambda>x. x) = np_div"
    by (intro ext) (simp add: f64_div_def np_div_def)
  show ?thesis
    unfolding pinv_svd_f64_def sinv_f64_def pinv_svd_def pinv_svd_traced_def d power2_eq_square
    by (cases "svd J") simp
qed









section \<open>The Smooth policy\<close>

text \<open>
  C5. For a threshold \<open>eps > 0\<close>: when every singular value of \<open>J\<close> is greater than
  \<open>eps\<close>, \<open>pinv_svd\<close> with the variant \<open>smooth\<close> returns what it returns with the variant
  \<open>plain\<close>; when every singular value is at most \<open>eps\<close>, it returns what the variant
  \<open>damped\<close> returns with \<open>lam = lam_min\<close>.
\<close>

theorem smooth_matches_plain_and_damped:
  assumes "svd J = (U, S, Vt)" and "0 < eps"
  shows "((\<forall>s \<in> set S. eps < s) \<longrightarrow>
            pinv_svd svd J ''smooth'' eps lam lam_min = pinv_svd svd J ''plain'' eps lam lam_min) \<and>
         ((\<forall>s \<in> set S. s \<le> eps) \<longrightarrow>
            pinv_svd svd J ''smooth'' eps lam lam_min = pinv_svd svd J ''damped'' eps lam_min lam_min)"
proof (intro conjI impI)
  assume "\<forall>s \<in> set S. eps < s"
  then have eq: "map (\<lambda>s. if s > eps then np_div 1 s else np_div s (s\<^sup>2 + lam_min\<^sup>2)) S =
             map (\<lambda>s. if s > 0 then np_div 1 s else Finite 0) S"
    using assms(2) by auto
  show "pinv_svd svd J ''smooth'' eps lam lam_min = pinv_svd svd J ''plain'' eps lam lam_min"
    by (simp add: pinv_svd_def pinv_svd_traced_def assms(1) eq)
next
  assume "\<forall>s \<in> set S. s \<le> eps"
  then have eq: "map (\<lambda>s. if s > eps then np_div 1 s else np_div s (s\<^sup>2 + lam_min\<^sup>2)) S =
             map (\<lambda>s. np_div s (s\<^sup>2 + lam_min\<^sup>2)) S"
    by auto
  show "pinv_svd svd J ''smooth'' eps lam lam_min = pinv_svd svd J ''damped'' eps lam_min lam_min"
    by (simp add: pinv_svd_def pinv_svd_traced_def assms(1) eq)
qed

lemma diag_svd_J_cond:
  "diag_svd J_cond =
     ([[1, 0], [0, 1], [0, 0], [0, 0], [0, 0], [0, 0]], [1, 1 / 200], [[1, 0], [0, 1]])"
  by (simp add: diag_svd_def J_cond_def nrows_def ncols_def)

theorem smooth_matches_plain_and_damped_witness:
  "(0 :: real) < 1 / 1000 \<and> (1 / 1000 :: real) < 1 / 200 \<and>
   pinv_svd diag_svd J_cond ''smooth'' (1 / 1000) (3 / 100) (1 / 100) =
     pinv_svd diag_svd J_cond ''plain'' (1 / 1000) (3 / 100) (1 / 100) \<and>
   (0 :: real) < 2 \<and> (1 :: real) \<le> 2 \<and>
   pinv_svd diag_svd J_cond ''smooth'' 2 (3 / 100) (1 / 100) =
     pinv_svd diag_svd J_cond ''damped'' 2 (1 / 100) (1 / 100)"
proof -
  have e1: "(0 :: real) < 1 / 1000" and e2: "(0 :: real) < 2" by simp_all
  show ?thesis
    using smooth_matches_plain_and_damped [where svd = diag_svd and J = J_cond,
        OF diag_svd_J_cond e1, of "3 / 100" "1 / 100"]
      smooth_matches_plain_and_damped [where svd = diag_svd and J = J_cond,
        OF diag_svd_J_cond e2, of "3 / 100" "1 / 100"]
    by simp
qed

section \<open>An unknown variant\<close>




section \<open>solve\<close>
lemma upt_6: "[0..<6] = [0, Suc 0, 2, 3, 4, 5]"
  by (simp add: eval_nat_numeral)

lemma solve_J_cond: "solve diag_svd J_cond error_y = Inr [Finite 0, Finite 0]"
  by (simp add: error_y_def upt_6 solve_def np_linalg_pinv_def diag_svd_J_cond amax_def matmul_def mat_T_def
      ncols_def nrows_def emb_def np_diag_def upt_2 dot_def np_div_def zero_np_float_def mat_vec_def)

lemma solve_spec_J_cond:
  "solve_spec diag_svd ''plain'' (1 / 10 ^ 4) (3 / 100) (1 / 100) J_cond error_y = Inr [Finite 0, Finite 200]"
  "solve_spec diag_svd ''clipped'' (1 / 10 ^ 4) (3 / 100) (1 / 100) J_cond error_y = Inr [Finite 0, Finite 200]"
  "solve_spec diag_svd ''smooth'' (1 / 10 ^ 4) (3 / 100) (1 / 100) J_cond error_y = Inr [Finite 0, Finite 200]"
  "solve_spec diag_svd ''damped'' (1 / 10 ^ 4) (3 / 100) (1 / 100) J_cond error_y = Inr [Finite 0, Finite (200 / 37)]"
  by (simp_all add: error_y_def upt_6 solve_spec_def pinv_svd_def pinv_svd_traced_def diag_svd_J_cond matmul_def mat_T_def
      ncols_def nrows_def emb_def np_diag_def upt_2 dot_def np_div_def zero_np_float_def mat_vec_def
      power2_eq_square)

text \<open>
  The claim C2 says that \<open>solve\<close> applies the generalized inverse of the configured
  policy. For the \<open>6\<times>2\<close> Jacobian \<open>J_cond\<close> with singular values \<open>1\<close> and \<open>0.005\<close> and the
  error \<open>(0, 1, 0, 0, 0, 0)\<close>, \<open>solve\<close> returns \<open>(0, 0)\<close>; under each of the four policies
  with the default parameters the specification's \<open>solve\<close> returns another vector.
\<close>

theorem solve_fixed_cutoff_counterexample:
  "solve diag_svd J_cond error_y \<noteq>
     solve_spec diag_svd ''plain'' (1 / 10 ^ 4) (3 / 100) (1 / 100) J_cond error_y \<and>
   solve diag_svd J_cond error_y \<noteq>
     solve_spec diag_svd ''clipped'' (1 / 10 ^ 4) (3 / 100) (1 / 100) J_cond error_y \<and>
   solve diag_svd J_cond error_y \<noteq>
     solve_spec diag_svd ''damped'' (1 / 10 ^ 4) (3 / 100) (1 / 100) J_cond error_y \<and>
   solve diag_svd J_cond error_y \<noteq>
     solve_spec diag_svd ''smooth'' (1 / 10 ^ 4) (3 / 100) (1 / 100) J_cond error_y"
  unfolding solve_J_cond solve_spec_J_cond by simp

text \<open>
  C2, as the code has it. \<open>solve\<close> is \<open>numpy.linalg.pinv(J, 0.01)\<close> applied to the error:
  it takes no policy, and cuts at the fixed relative threshold \<open>0.01\<close> times the largest
  singular value. When no singular value equals that threshold, this is \<open>pinv_svd\<close> with
  the variant \<open>clipped\<close> at \<open>eps = 0.01 \<cdot> max S\<close>, applied to the error.
\<close>

theorem solve_is_numpy_pinv:
  assumes "svd J = (U, S, Vt)" and "list_all (\<lambda>s. s \<noteq> amax S / 100) S"
  shows "solve svd J error =
           (case np_linalg_pinv svd J (1 / 100) of
              Inl e \<Rightarrow> Inl e | Inr P \<Rightarrow> mat_vec P (map Finite error)) \<and>
         solve svd J error = solve_spec svd ''clipped'' (amax S / 100) lam lam_min J error"
proof -
  have eq: "map (\<lambda>x. if x > 1 / 100 * amax S then np_div 1 x else Finite 0) S =
            map (\<lambda>s. if s < amax S / 100 then Finite 0 else np_div 1 s) S"
    using assms(2) by (auto simp: list_all_iff)
  have "np_linalg_pinv svd J (1 / 100) = pinv_svd svd J ''clipped'' (amax S / 100) lam lam_min"
    unfolding np_linalg_pinv_def pinv_svd_def pinv_svd_traced_def assms(1) Let_def
    by (simp only: eq prod.case) simp
  then show ?thesis
    by (simp add: solve_def solve_spec_def)
qed

theorem solve_is_numpy_pinv_witness:
  "list_all (\<lambda>s. s \<noteq> amax [1, 1 / 200] / 100) [1, 1 / 200] \<and>
   solve diag_svd J_cond error_y =
     solve_spec diag_svd ''clipped'' (amax [1, 1 / 200] / 100) (3 / 100) (1 / 100) J_cond error_y"
proof -
  have h: "list_all (\<lambda>s. s \<noteq> amax [1, 1 / 200] / 100) [1, 1 / 200 :: real]"
    by (simp add: amax_def)
  show ?thesis
    using solve_is_numpy_pinv [where svd = diag_svd and J = J_cond, OF diag_svd_J_cond h,
        of error_y "3 / 100" "1 / 100"] h
    by blast
qed

section \<open>actuate\<close>

text \<open>
  C7. For a joint delta of as many components as there are joints, \<open>actuate\<close> sets the
  joint positions to the elementwise sum of the previous positions and the delta, with
  no clamping, publishes them, and returns with the cached pose and Jacobian being the
  result of \<open>fk\<close> on the target link and the new positions.
\<close>
theorem actuate_adds_delta:
  assumes "length (ravel q_delta) = length (joint_msg_position self)"
  shows "\<exists>self'. actuate fk self q_delta = Inr self' \<and>
           joint_msg_position self' = map2 (+) (joint_msg_position self) (ravel q_delta) \<and>
           (self_T self', self_J self') =
             fk (target_link self)
               (Map.empty(joint_msg_name self [\<mapsto>] joint_msg_position self')) \<and>
           joint_msg_name self' = joint_msg_name self \<and>
           target_link self' = target_link self \<and>
           pub self' = pub self @ [(joint_msg_name self, joint_msg_position self')]"
  using assms
  by (cases "fk (target_link self)
        (Map.empty(joint_msg_name self [\<mapsto>] map2 (+) (joint_msg_position self) (ravel q_delta)))")
     (simp add: actuate_def np_iadd_def Let_def)

theorem actuate_adds_delta_witness:
  "length (ravel (Vec [1 / 10, - 1 / 10])) = length (joint_msg_position ctl_example) \<and>
   (\<exists>self'. actuate fk_example ctl_example (Vec [1 / 10, - 1 / 10]) = Inr self' \<and>
      joint_msg_position self' = [11 / 10, 19 / 10] \<and>
      (self_T self', self_J self') = (eye 4, [[11 / 10, 19 / 10]]) \<and>
      pub self' = [([''joint1'', ''joint2''], [11 / 10, 19 / 10])])"
proof -
  have h: "length (ravel (Vec [1 / 10, - 1 / 10])) = length (joint_msg_position ctl_example)"
    by (simp add: ctl_example_def)
  show ?thesis
    using actuate_adds_delta [OF h, of fk_example] h
    by (auto simp: ctl_example_def fk_example_def)
qed

section \<open>Position and orientation error\<close>

lemma upt_3: "[0..<3] = [0, Suc 0, 2]"
  by (simp add: numeral_3_eq_3 numeral_2_eq_2)

lemma upt_4: "[0..<4] = [0, Suc 0, 2, 3]"
  by (simp add: eval_nat_numeral)

lemma list4: "length xs = 4 \<Longrightarrow> \<exists>a b c d. xs = [a, b, c, d]"
  by (auto simp: eval_nat_numeral length_Suc_conv)

lemma is_mat_4_4:
  assumes "is_mat 4 4 T"
  obtains a0 a1 a2 a3 b0 b1 b2 b3 c0 c1 c2 c3 d0 d1 d2 d3 where
    "T = [[a0, a1, a2, a3], [b0, b1, b2, b3], [c0, c1, c2, c3], [d0, d1, d2, d3]]"
proof -
  obtain r0 r1 r2 r3 where T: "T = [r0, r1, r2, r3]"
    using assms list4 [of T] by (auto simp: is_mat_def)
  have "length r0 = 4" "length r1 = 4" "length r2 = 4" "length r3 = 4"
    using assms by (simp_all add: is_mat_def T)
  then show ?thesis
    using that T list4 [of r0] list4 [of r1] list4 [of r2] list4 [of r3] by metis
qed

lemma position_error_4_4:
  assumes "is_mat 4 4 T1" "is_mat 4 4 T2"
  shows "position_error T1 T2 =
           Inr [T1 ! 0 ! 3 - T2 ! 0 ! 3, T1 ! 1 ! 3 - T2 ! 1 ! 3, T1 ! 2 ! 3 - T2 ! 2 ! 3]"
proof -
  obtain a0 a1 a2 a3 b0 b1 b2 b3 c0 c1 c2 c3 d0 d1 d2 d3 where
    T1: "T1 = [[a0, a1, a2, a3], [b0, b1, b2, b3], [c0, c1, c2, c3], [d0, d1, d2, d3]]"
    using assms(1) by (rule is_mat_4_4)
  obtain e0 e1 e2 e3 f0 f1 f2 f3 g0 g1 g2 g3 h0 h1 h2 h3 where
    T2: "T2 = [[e0, e1, e2, e3], [f0, f1, f2, f3], [g0, g1, g2, g3], [h0, h1, h2, h3]]"
    using assms(2) by (rule is_mat_4_4)
  show ?thesis
    by (simp add: T1 T2 position_error_def slice_0_3_col_3_def ncols_def np_sub_def)
qed

text \<open>
  C9. For every pair of poses (\<open>4\<times>4\<close> matrices) \<open>T1\<close> and \<open>T2\<close>, the position error of
  \<open>T1\<close> against \<open>T2\<close> is a vector of three components, and the position error of \<open>T2\<close>
  against \<open>T1\<close> is its negation.
\<close>

theorem position_error_antisymmetric:
  assumes "is_mat 4 4 T1" and "is_mat 4 4 T2"
  shows "\<exists>v. position_error T1 T2 = Inr v \<and> length v = 3 \<and>
             position_error T2 T1 = Inr (map uminus v)"
  by (simp add: position_error_4_4 [OF assms] position_error_4_4 [OF assms(2,1)])

lemma is_mat_pose_rot_z90: "is_mat 4 4 pose_rot_z90"
  by (simp add: is_mat_def pose_rot_z90_def)

lemma is_mat_eye_4: "is_mat 4 4 (eye 4)"
  by (simp add: is_mat_def eye_def list_all_iff)

theorem position_error_antisymmetric_witness:
  "is_mat 4 4 pose_rot_z90 \<and> is_mat 4 4 (eye 4) \<and>
   position_error pose_rot_z90 (eye 4) = Inr [1, 2, 3] \<and>
   position_error (eye 4) pose_rot_z90 = Inr [- 1, - 2, - 3]"
proof -
  have "position_error pose_rot_z90 (eye 4) = Inr [1, 2, 3]"
    by (simp add: position_error_4_4 [OF is_mat_pose_rot_z90 is_mat_eye_4])
       (simp add: pose_rot_z90_def eye_def upt_4)
  then show ?thesis
    using position_error_antisymmetric [OF is_mat_pose_rot_z90 is_mat_eye_4]
      is_mat_pose_rot_z90 is_mat_eye_4
    by auto
qed

lemma eye_3: "eye 3 = [[1, 0, 0], [0, 1, 0], [0, 0, 1]]"
  by (simp add: eye_def upt_3)

lemma eye_4: "eye 4 = [[1, 0, 0, 0], [0, 1, 0, 0], [0, 0, 1, 0], [0, 0, 0, 1]]"
  by (simp add: eye_def upt_4)

text \<open>
  C6. The position error of a pose against itself is the zero vector, in float64 too:
  \<open>x - x\<close> is zero for every finite float. The orientation error of a pose against itself
  is not: \<open>Controller.orientation_error\<close> hands the float product \<open>R\<^sup>t \<cdot> R\<close>, which is the
  identity only up to rounding, to the axis-angle extraction and returns \<open>angle \<cdot> axis\<close>
  with no tolerance check, where \<open>alt_orientation_error\<close> has one.
\<close>

lemma position_error_same_pose: "is_mat 4 4 T \<Longrightarrow> position_error T T = Inr [0, 0, 0]"
  by (simp add: position_error_4_4)

section \<open>The zero case of the orientation error\<close>

lemma is_mat_slice_0_3_0_3: "is_mat 4 4 T \<Longrightarrow> is_mat 3 3 (slice_0_3_0_3 T)"
  by (erule is_mat_4_4) (simp add: slice_0_3_0_3_def is_mat_def)

lemma relative_rotation_exists:
  assumes "is_mat 4 4 T_tgt" and "is_mat 4 4 T_cur"
  shows "\<exists>R_err T_err.
           matmul (mat_T (slice_0_3_0_3 T_cur)) (slice_0_3_0_3 T_tgt) = Inr R_err \<and>
           set_0_3_0_3 (eye 4) R_err = Inr T_err"
proof -
  have "is_mat 3 3 (mat_T (slice_0_3_0_3 T_cur))"
    using is_mat_slice_0_3_0_3 [OF assms(2)] by (simp add: is_mat_T)
  then obtain R_err where R: "matmul (mat_T (slice_0_3_0_3 T_cur)) (slice_0_3_0_3 T_tgt) = Inr R_err"
    "is_mat 3 3 R_err"
    using matmul_shape [OF _ is_mat_slice_0_3_0_3 [OF assms(1)]] by force
  then have "nrows R_err = 3" "ncols R_err = 3"
    by (simp_all add: nrows_is_mat ncols_is_mat)
  then show ?thesis
    using R(1) by (simp add: set_0_3_0_3_def)
qed

lemma pi_bounds_small: "- pi < 1 / 10 ^ 9" "1 / 10 ^ 9 \<le> pi"
  using pi_gt_zero pi_ge_two by simp_all

lemma valid_pose_eye_4: "valid_pose (eye 4)"
  by (simp add: valid_pose_def eye_4 is_mat_def slice_0_3_0_3_def matmul_def
      mat_T_def ncols_def nrows_def upt_3 dot_def eye_3 det3_def)

lemma sin_cos_sq: "sin x * sin x + cos x * cos x = (1::real)"
  using sin_cos_squared_add [of x] by (simp add: power2_eq_square)

lemma valid_pose_rot_z_small: "valid_pose pose_rot_z_small"
  by (simp add: valid_pose_def pose_rot_z_small_def is_mat_def slice_0_3_0_3_def matmul_def
      mat_T_def ncols_def nrows_def upt_3 dot_def eye_3 det3_def sin_cos_sq add.commute)

lemma relative_rotation_small:
  "matmul (mat_T (slice_0_3_0_3 (eye 4))) (slice_0_3_0_3 pose_rot_z_small) =
     Inr (slice_0_3_0_3 pose_rot_z_small)"
  "set_0_3_0_3 (eye 4) (slice_0_3_0_3 pose_rot_z_small) = Inr pose_rot_z_small"
  by (simp_all add: pose_rot_z_small_def eye_4 slice_0_3_0_3_def matmul_def
      mat_T_def ncols_def nrows_def upt_3 upt_4 dot_def set_0_3_0_3_def)

text \<open>
  The claim C4 says that the orientation error is the zero vector when the rotation
  angle is zero within tolerance, the case being decided by a tolerance check before any
  axis extraction. For the target turned by \<open>1e-9\<close> about the z axis against the identity,
  an angle that \<open>isclose\<close> takes for zero, \<open>Controller.orientation_error\<close> returns
  \<open>(0, 0, 1e-9)\<close>; and \<open>alt_orientation_error\<close> calls the axis-angle extraction on the
  near-identity rotation first and checks the tolerance on the angle it returned.
\<close>

theorem orientation_error_tolerance_counterexample:
  "valid_pose pose_rot_z_small \<and> valid_pose (eye 4) \<and>
   axis_angle_of pose_rot_z_small (1 / 10 ^ 9, [0, 0, 1], [0, 0, 0, 1]) \<and>
   np_isclose (1 / 10 ^ 9) 0 \<and>
   orientation_error (rfm_about_z (1 / 10 ^ 9)) pose_rot_z_small (eye 4) = Inr [0, 0, 1 / 10 ^ 9] \<and>
   orientation_error (rfm_about_z (1 / 10 ^ 9)) pose_rot_z_small (eye 4) \<noteq> Inr [0, 0, 0] \<and>
   fst (alt_orientation_error_traced (rfm_about_z (1 / 10 ^ 9)) pose_rot_z_small (eye 4)) =
     [TfRotationFromMatrix pose_rot_z_small, NpIsclose (1 / 10 ^ 9) 0]"
proof -
  have a: "axis_angle_of pose_rot_z_small (1 / 10 ^ 9, [0, 0, 1], [0, 0, 0, 1])"
    using pi_bounds_small by (simp add: axis_angle_of_def) (simp add: pose_rot_z_small_def)
  have c: "np_isclose (1 / 10 ^ 9) 0"
    by (simp add: np_isclose_def)
  have o: "orientation_error (rfm_about_z (1 / 10 ^ 9)) pose_rot_z_small (eye 4) = Inr [0, 0, 1 / 10 ^ 9]"
    by (simp add: orientation_error_def relative_rotation_small rfm_about_z_def)
  have t: "fst (alt_orientation_error_traced (rfm_about_z (1 / 10 ^ 9)) pose_rot_z_small (eye 4)) =
     [TfRotationFromMatrix pose_rot_z_small, NpIsclose (1 / 10 ^ 9) 0]"
    by (simp add: alt_orientation_error_traced_def relative_rotation_small rfm_about_z_def)
  show ?thesis
    using valid_pose_rot_z_small valid_pose_eye_4 a c t o by simp
qed

text \<open>
  C4, as the code has it by design. For every pair of poses the relative rotation
  \<open>R_cur\<^sup>t \<cdot> R_tgt\<close> and its homogeneous matrix \<open>T_err\<close> exist, and whenever the angle that
  \<open>rotation_from_matrix\<close> returns for \<open>T_err\<close> is at most \<open>1e-8\<close> in magnitude,
  \<open>alt_orientation_error\<close> returns the zero vector whatever the axis: the case is decided
  by the comparison \<open>isclose(angle, 0)\<close>, which follows the extraction of angle and axis.
\<close>

theorem alt_orientation_error_zero_case:
  assumes "is_mat 4 4 T_tgt" and "is_mat 4 4 T_cur"
  shows "\<exists>R_err T_err.
           matmul (mat_T (slice_0_3_0_3 T_cur)) (slice_0_3_0_3 T_tgt) = Inr R_err \<and>
           set_0_3_0_3 (eye 4) R_err = Inr T_err \<and>
           (\<forall>angle axis point.
              rotation_from_matrix T_err = Inr (angle, axis, point) \<and> \<bar>angle\<bar> \<le> 1 / 10 ^ 8 \<longrightarrow>
              alt_orientation_error_traced rotation_from_matrix T_tgt T_cur =
                ([TfRotationFromMatrix T_err, NpIsclose angle 0], Inr [0, 0, 0]))"
proof -
  obtain R_err T_err where
    e: "matmul (mat_T (slice_0_3_0_3 T_cur)) (slice_0_3_0_3 T_tgt) = Inr R_err"
      "set_0_3_0_3 (eye 4) R_err = Inr T_err"
    using relative_rotation_exists [OF assms] by blast
  have "alt_orientation_error_traced rotation_from_matrix T_tgt T_cur =
          ([TfRotationFromMatrix T_err, NpIsclose angle 0], Inr [0, 0, 0])"
    if "rotation_from_matrix T_err = Inr (angle, axis, point)" "\<bar>angle\<bar> \<le> 1 / 10 ^ 8"
    for angle axis point
    using that by (simp add: alt_orientation_error_traced_def e np_isclose_def)
  then show ?thesis
    using e by blast
qed

theorem alt_orientation_error_zero_case_witness:
  "is_mat 4 4 pose_rot_z_small \<and> is_mat 4 4 (eye 4) \<and> \<bar>1 / 10 ^ 9 :: real\<bar> \<le> 1 / 10 ^ 8 \<and>
   alt_orientation_error (rfm_about_z (1 / 10 ^ 9)) pose_rot_z_small (eye 4) = Inr [0, 0, 0]"
proof -
  have m: "is_mat 4 4 pose_rot_z_small"
    using valid_pose_rot_z_small by (simp add: valid_pose_def)
  have s: "\<bar>1 / 10 ^ 9 :: real\<bar> \<le> 1 / 10 ^ 8" by simp
  obtain T_err where
    "\<forall>angle axis point.
       rfm_about_z (1 / 10 ^ 9) T_err = Inr (angle, axis, point) \<and> \<bar>angle\<bar> \<le> 1 / 10 ^ 8 \<longrightarrow>
       alt_orientation_error_traced (rfm_about_z (1 / 10 ^ 9)) pose_rot_z_small (eye 4) =
         ([TfRotationFromMatrix T_err, NpIsclose angle 0], Inr [0, 0, 0])"
    using alt_orientation_error_zero_case [OF m is_mat_eye_4, of "rfm_about_z (1 / 10 ^ 9)"]
    by blast
  then have "alt_orientation_error_traced (rfm_about_z (1 / 10 ^ 9)) pose_rot_z_small (eye 4) =
         ([TfRotationFromMatrix T_err, NpIsclose (1 / 10 ^ 9) 0], Inr [0, 0, 0])"
    using s by (simp add: rfm_about_z_def)
  then show ?thesis
    using m is_mat_eye_4 by (simp add: alt_orientation_error_def)
qed

section \<open>The singular matrix of rank one\<close>

lemma list2: "length xs = 2 \<Longrightarrow> \<exists>a b. xs = [a, b]"
  by (auto simp: eval_nat_numeral length_Suc_conv)

lemma is_mat_2_2:
  assumes "is_mat 2 2 A"
  obtains a b c d where "A = [[a, b], [c, d]]"
proof -
  obtain r0 r1 where A: "A = [r0, r1]"
    using assms list2 [of A] by (auto simp: is_mat_def)
  have "length r0 = 2" "length r1 = 2"
    using assms by (simp_all add: is_mat_def A)
  then show ?thesis
    using that A list2 [of r0] list2 [of r1] by metis
qed

lemma eye_2: "eye 2 = [[1, 0], [0, 1]]"
  by (simp add: eye_def upt_2)

text \<open>
  Every thin SVD of \<open>J_rank1\<close> has the singular values \<open>1\<close> and \<open>0\<close>: the sum of the
  squared entries gives \<open>s\<^sup>2 + t\<^sup>2 = 1\<close>, the determinant gives \<open>s \<cdot> t = 0\<close>.
\<close>

lemma rank1_svd_algebra:
  fixes a b c d e f g h s t :: real
  assumes U: "a * a + c * c = 1" "b * b + d * d = 1" "a * b + c * d = 0"
    and V: "e * e + f * f = 1" "g * g + h * h = 1" "e * g + f * h = 0"
    and J: "a * s * e + b * t * g = 1" "a * s * f + b * t * h = 0"
           "c * s * e + d * t * g = 0" "c * s * f + d * t * h = 0"
    and S: "t \<le> s" "0 \<le> t"
  shows "s = 1" "t = 0" "c = 0" "f = 0" "a * e = 1"
proof -
  have frob: "(a * s * e + b * t * g)\<^sup>2 + (a * s * f + b * t * h)\<^sup>2 +
              (c * s * e + d * t * g)\<^sup>2 + (c * s * f + d * t * h)\<^sup>2 =
              s\<^sup>2 * ((a * a + c * c) * (e * e + f * f)) +
              t\<^sup>2 * ((b * b + d * d) * (g * g + h * h)) +
              2 * s * t * ((a * b + c * d) * (e * g + f * h))"
    by (simp add: power2_eq_square algebra_simps)
  have st1: "s\<^sup>2 + t\<^sup>2 = 1"
    using frob by (simp add: U V J)
  have det: "(a * s * e + b * t * g) * (c * s * f + d * t * h) -
             (a * s * f + b * t * h) * (c * s * e + d * t * g) =
             (a * d - b * c) * (e * h - f * g) * (s * t)"
    by (simp add: algebra_simps)
  have dU: "(a * d - b * c)\<^sup>2 = (a * a + c * c) * (b * b + d * d) - (a * b + c * d)\<^sup>2"
    by (simp add: power2_eq_square algebra_simps)
  have dV: "(e * h - f * g)\<^sup>2 = (e * e + f * f) * (g * g + h * h) - (e * g + f * h)\<^sup>2"
    by (simp add: power2_eq_square algebra_simps)
  have "(a * d - b * c)\<^sup>2 = 1" "(e * h - f * g)\<^sup>2 = 1"
    using dU dV by (simp_all add: U V)
  then have "a * d - b * c \<noteq> 0" "e * h - f * g \<noteq> 0"
    by auto
  moreover have "(a * d - b * c) * (e * h - f * g) * (s * t) = 0"
    using det by (simp add: J)
  ultimately have "s * t = 0" by simp
  then show t: "t = 0"
    using S by (cases "t = 0") auto
  have "0 \<le> s" using S by simp
  moreover have "s\<^sup>2 = 1" using st1 t by simp
  ultimately show s: "s = 1"
    by (simp add: power2_eq_1_iff)
  show ae: "a * e = 1" using J(1) s t by simp
  have "a * f = 0" "c * e = 0" using J(2,3) s t by simp_all
  moreover have "a \<noteq> 0" "e \<noteq> 0" using ae by auto
  ultimately show "c = 0" "f = 0" by simp_all
qed

lemma rank1_svd_form:
  assumes "is_thin_svd J_rank1 (U, S, Vt)"
  obtains a b d e g h where
    "U = [[a, b], [0, d]]" "S = [1, 0]" "Vt = [[e, 0], [g, h]]" "a * e = 1"
proof -
  have shp: "is_mat 2 2 U" "length S = 2" "is_mat 2 2 Vt"
    using assms
    by (simp_all add: is_thin_svd_def thin_svd_shape_def J_rank1_def nrows_def ncols_def
        numeral_2_eq_2)
  obtain a b c d where U: "U = [[a, b], [c, d]]"
    using shp(1) by (rule is_mat_2_2)
  obtain e f g h where Vt: "Vt = [[e, f], [g, h]]"
    using shp(3) by (rule is_mat_2_2)
  obtain s t where S: "S = [s, t]"
    using shp(2) list2 by blast
  have ord: "t \<le> s" "0 \<le> t"
    using assms by (simp_all add: is_thin_svd_def S)
  have o: "matmul (mat_T U) U = Inr (eye 2)" "matmul Vt (mat_T Vt) = Inr (eye 2)"
    using assms shp(2) by (simp_all add: is_thin_svd_def)
  obtain US where US: "matmul U (np_diag S) = Inr US" "matmul US Vt = Inr J_rank1"
    using assms by (auto simp: is_thin_svd_def split: sum.splits)
  have UU: "a * a + c * c = 1" "b * b + d * d = 1" "a * b + c * d = 0"
    using o(1)
    by (simp_all add: U eye_2 matmul_def mat_T_def ncols_def nrows_def upt_2 dot_def)
  have VV: "e * e + f * f = 1" "g * g + h * h = 1" "e * g + f * h = 0"
    using o(2)
    by (simp_all add: Vt eye_2 matmul_def mat_T_def ncols_def nrows_def upt_2 dot_def)
  have "US = [[a * s, b * t], [c * s, d * t]]"
    using US(1)
    by (auto simp: S U matmul_def mat_T_def ncols_def nrows_def upt_2 dot_def np_diag_def)
  then have JJ: "a * s * e + b * t * g = 1" "a * s * f + b * t * h = 0"
           "c * s * e + d * t * g = 0" "c * s * f + d * t * h = 0"
    using US(2)
    by (simp_all add: Vt J_rank1_def matmul_def mat_T_def ncols_def nrows_def upt_2 dot_def)
  note r = rank1_svd_algebra [OF UU VV JJ ord]
  show ?thesis
    using that [of a b d e g h] U S Vt r by simp
qed


lemma pinv_svd_rank1_damped:
  assumes "svd J_rank1 = (U, S, Vt)" and "is_thin_svd J_rank1 (U, S, Vt)"
  shows "pinv_svd svd J_rank1 ''damped'' eps (3 / 100) lam_min =
           Inr [[Finite (10000 / 10009), Finite 0], [Finite 0, Finite 0]]"
proof -
  obtain a b d e g h where
    f: "U = [[a, b], [0, d]]" "S = [1, 0]" "Vt = [[e, 0], [g, h]]" "a * e = 1"
    using assms(2) by (rule rank1_svd_form)
  have "e * a = 1" using f(4) by (simp add: mult.commute)
  then show ?thesis
    by (simp add: pinv_svd_def pinv_svd_traced_def assms(1) f(1-3) matmul_def mat_T_def
        ncols_def nrows_def emb_def np_diag_def upt_2 dot_def np_div_def zero_np_float_def
        power2_eq_square)
qed

lemma pinv_svd_rank1_plain:
  assumes "svd J_rank1 = (U, S, Vt)" and "is_thin_svd J_rank1 (U, S, Vt)"
  shows "pinv_svd svd J_rank1 ''plain'' eps lam lam_min =
           Inr [[Finite 1, Finite 0], [Finite 0, Finite 0]]"
proof -
  obtain a b d e g h where
    f: "U = [[a, b], [0, d]]" "S = [1, 0]" "Vt = [[e, 0], [g, h]]" "a * e = 1"
    using assms(2) by (rule rank1_svd_form)
  have "e * a = 1" using f(4) by (simp add: mult.commute)
  then show ?thesis
    by (simp add: pinv_svd_def pinv_svd_traced_def assms(1) f(1-3) matmul_def mat_T_def
        ncols_def nrows_def emb_def np_diag_def upt_2 dot_def np_div_def zero_np_float_def)
qed

text \<open>
  C8. For \<open>J_rank1 = [[1, 0], [0, 0]]\<close> and every thin SVD of it: \<open>pinv_svd\<close> with the
  variant \<open>damped\<close> and \<open>lam = 0.03\<close> returns a matrix whose entries are finite and of
  magnitude at most \<open>1 / lam\<close>; the second singular value is \<open>0\<close>, the Plain rule maps it
  to \<open>0\<close>, and the result of the variant \<open>plain\<close> applied to an error vector does not
  depend on the second component of the vector.
\<close>

theorem rank1_scenario:
  assumes "svd J_rank1 = (U, S, Vt)" and "is_thin_svd J_rank1 (U, S, Vt)"
  shows "(\<exists>P. pinv_svd svd J_rank1 ''damped'' eps (3 / 100) lam_min = Inr P \<and>
              entries_abs_le (1 / (3 / 100)) P) \<and>
         S ! 1 = 0 \<and> sigma_inv_spec Plain eps lam lam_min (S ! 1) = Finite 0 \<and>
         (\<exists>Q. pinv_svd svd J_rank1 ''plain'' eps lam lam_min = Inr Q \<and>
              (\<forall>e1 e2. mat_vec Q [Finite e1, Finite e2] = Inr [Finite e1, Finite 0] \<and>
                       mat_vec Q [Finite e1, Finite e2] = mat_vec Q [Finite e1, Finite 0]))"
proof -
  have S: "S = [1, 0]"
    using assms(2) by (rule rank1_svd_form)
  have "entries_abs_le (1 / (3 / 100)) [[Finite (10000 / 10009), Finite 0], [Finite 0, Finite 0]]"
    by (simp add: entries_abs_le_def)
  moreover have "\<forall>e1 e2.
      mat_vec [[Finite 1, Finite 0], [Finite 0, Finite 0]] [Finite e1, Finite e2] =
        Inr [Finite e1, Finite 0] \<and>
      mat_vec [[Finite 1, Finite 0], [Finite 0, Finite 0]] [Finite e1, Finite e2] =
        mat_vec [[Finite 1, Finite 0], [Finite 0, Finite 0]] [Finite e1, Finite 0]"
    by (simp add: mat_vec_def ncols_def dot_def zero_np_float_def)
  ultimately show ?thesis
    using pinv_svd_rank1_damped [where svd = svd, OF assms, of eps lam_min]
      pinv_svd_rank1_plain [where svd = svd, OF assms, of eps lam lam_min]
    by (simp add: S)
qed

lemma is_thin_svd_J_rank1: "is_thin_svd J_rank1 ([[1, 0], [0, 1]], [1, 0], [[1, 0], [0, 1]])"
proof -
  have "eye (length [1, 0 :: real]) = [[1, 0], [0, 1]]"
    by (simp add: eye_def upt_2 numeral_2_eq_2 [symmetric])
  then show ?thesis
    unfolding is_thin_svd_def prod.case
    by (simp add: thin_J_rank1 matmul_def mat_T_def ncols_def nrows_def
        upt_2 dot_def np_diag_def) (simp add: J_rank1_def)
qed

theorem rank1_scenario_witness:
  "is_thin_svd J_rank1 (diag_svd J_rank1) \<and>
   (\<exists>P. pinv_svd diag_svd J_rank1 ''damped'' (1 / 10 ^ 4) (3 / 100) (1 / 100) = Inr P \<and>
        entries_abs_le (1 / (3 / 100)) P) \<and>
   (\<exists>Q. pinv_svd diag_svd J_rank1 ''plain'' (1 / 10 ^ 4) (3 / 100) (1 / 100) = Inr Q \<and>
        mat_vec Q [Finite 5, Finite 7] = Inr [Finite 5, Finite 0])"
  using rank1_scenario [where svd = diag_svd, OF diag_svd_J_rank1 is_thin_svd_J_rank1,
      of "1 / 10 ^ 4" "1 / 100" "3 / 100"] is_thin_svd_J_rank1
  by (auto simp: diag_svd_J_rank1)

end
